theory Spec2Isabelle
  imports Complex_Main
begin

section \<open>Webhook signature verification (src/src/Webhooks.ts)\<close>

text \<open>
  The development embeds the functions of \<^verbatim>\<open>Webhooks.ts\<close> as HOL functions.
  Exceptions are values of the sum type \<open>error + 'a\<close>, the clock
  \<^verbatim>\<open>Math.floor(Date.now() / 1000)\<close> is an explicit argument \<open>now\<close>, and the calls
  made to the crypto provider are returned as a list next to the result, so that
  "the provider was not invoked" is a statement about that list.
\<close>

subsection \<open>JavaScript values\<close>

text \<open>
  Strings are lists of code units; the header grammar only looks at the ASCII
  characters \<^verbatim>\<open>,\<close> \<^verbatim>\<open>=\<close> \<^verbatim>\<open>+\<close> \<^verbatim>\<open>-\<close>, the digits and white space.

  Numbers supplied by the caller (\<^verbatim>\<open>tolerance\<close>, \<^verbatim>\<open>opts.timestamp\<close>) are
  \<open>number\<close>: a finite value or NaN. Numbers produced by \<^verbatim>\<open>parseInt\<close> and
  \<^verbatim>\<open>Math.floor\<close> are integral or NaN: \<open>intnum\<close>. The infinities and the rounding
  of doubles beyond \<open>2 ^ 53\<close> are not represented.
\<close>

datatype number = NaN | Num rat

datatype intnum = NaNI | IntNum int

fun toNumber :: "intnum \<Rightarrow> number" where
  "toNumber NaNI = NaN"
| "toNumber (IntNum i) = Num (of_int i)"

text \<open>\<^verbatim>\<open>a > b\<close> on numbers: false as soon as one side is NaN.\<close>

fun gt :: "number \<Rightarrow> number \<Rightarrow> bool" where
  "gt (Num a) (Num b) = (b < a)"
| "gt _ _ = False"

text \<open>\<^verbatim>\<open>a - b\<close> where \<open>a\<close> is integral.\<close>

fun minus_intnum :: "int \<Rightarrow> intnum \<Rightarrow> intnum" where
  "minus_intnum a NaNI = NaNI"
| "minus_intnum a (IntNum b) = IntNum (a - b)"

text \<open>\<^verbatim>\<open>Math.floor(x)\<close>; an absent property is \<^verbatim>\<open>undefined\<close>, which floors to NaN.\<close>

fun Math_floor :: "number option \<Rightarrow> intnum" where
  "Math_floor None = NaNI"
| "Math_floor (Some NaN) = NaNI"
| "Math_floor (Some (Num q)) = IntNum \<lfloor>q\<rfloor>"

text \<open>Truthiness of a number: neither NaN nor zero.\<close>

fun truthy_intnum :: "intnum \<Rightarrow> bool" where
  "truthy_intnum NaNI = False"
| "truthy_intnum (IntNum i) = (i \<noteq> 0)"

fun truthy_number :: "number \<Rightarrow> bool" where
  "truthy_number NaN = False"
| "truthy_number (Num q) = (q \<noteq> 0)"

subsubsection \<open>Number to string\<close>

definition digit_char :: "int \<Rightarrow> char" where
  "digit_char d = char_of (48 + d)"

function digits :: "int \<Rightarrow> string" where
  "digits n = (if n < 10 then [digit_char n] else digits (n div 10) @ [digit_char (n mod 10)])"
  by pat_completeness auto
termination
  by (relation "measure nat") auto

declare digits.simps [simp del]

text \<open>
  \<^verbatim>\<open>String(n)\<close>, as used by \<^verbatim>\<open>'t=' + opts.timestamp\<close> and by the template literal of
  \<^verbatim>\<open>makeHMACContent\<close>: the decimal digits, a leading minus sign for negative values.
\<close>

fun numToString :: "intnum \<Rightarrow> string" where
  "numToString NaNI = ''NaN''"
| "numToString (IntNum i) = (if i < 0 then CHR ''-'' # digits (- i) else digits i)"

subsubsection \<open>parseInt with radix 10\<close>

definition isWhiteSpace :: "char \<Rightarrow> bool" where
  "isWhiteSpace c = (of_char c \<in> {9, 10, 11, 12, 13, 32, 160 :: int})"

definition isDigit :: "char \<Rightarrow> bool" where
  "isDigit c = (48 \<le> (of_char c :: int) \<and> (of_char c :: int) \<le> 57)"

definition digit_val :: "char \<Rightarrow> int" where
  "digit_val c = of_char c - 48"

definition digits_value :: "string \<Rightarrow> int" where
  "digits_value z = foldl (\<lambda>a c. 10 * a + digit_val c) 0 z"

text \<open>
  \<^verbatim>\<open>parseInt(s, 10)\<close>: leading white space is skipped, one sign is read, then the
  longest run of decimal digits; no digit gives NaN. An \<^verbatim>\<open>undefined\<close> argument is
  first converted to the string \<^verbatim>\<open>"undefined"\<close>.
\<close>

definition parseInt :: "string option \<Rightarrow> intnum" where
  "parseInt v =
     (let inputString = (case v of None \<Rightarrow> ''undefined'' | Some s \<Rightarrow> s);
          S = dropWhile isWhiteSpace inputString;
          sign = (case S of c # _ \<Rightarrow> (if c = CHR ''-'' then - 1 else 1) | [] \<Rightarrow> (1::int));
          S' = (case S of c # r \<Rightarrow> (if c = CHR ''+'' \<or> c = CHR ''-'' then r else S) | [] \<Rightarrow> S);
          Z = takeWhile isDigit S'
      in if Z = [] then NaNI else IntNum (sign * digits_value Z))"

subsubsection \<open>String.prototype.split with a one-character separator\<close>

text \<open>
  \<^verbatim>\<open>s.split(c)\<close> cuts at every occurrence of \<open>c\<close>; the result is never empty
  (\<^verbatim>\<open>"".split(",")\<close> is \<^verbatim>\<open>[""]\<close>).
\<close>

fun split :: "char \<Rightarrow> string \<Rightarrow> string list" where
  "split c [] = [[]]"
| "split c (x # xs) =
     (if x = c then [] # split c xs
      else (case split c xs of t # ts \<Rightarrow> (x # t) # ts | [] \<Rightarrow> [[x]]))"

text \<open>\<^verbatim>\<open>a[i]\<close> on an array: \<^verbatim>\<open>undefined\<close> out of range.\<close>

definition at_index :: "'a list \<Rightarrow> nat \<Rightarrow> 'a option" where
  "at_index xs i = (if i < length xs then Some (xs ! i) else None)"

subsection \<open>Types of Webhooks.ts\<close>

record StripeCryptoProvider =
  computeHMACSignature :: "string \<Rightarrow> string \<Rightarrow> string"
  computeHMACSignatureAsync :: "string \<Rightarrow> string \<Rightarrow> string"

text \<open>
  A \<^verbatim>\<open>Buffer\<close> is a list of bytes. \<^verbatim>\<open>WebhookPayload = string | Buffer\<close>. The header
  argument is typed \<^verbatim>\<open>string | Buffer\<close> too, but the code tests it for an array and
  for a non-string, so both are values of the model.
\<close>

type_synonym Buffer = "nat list"

datatype WebhookPayload = PString string | PBuffer Buffer

datatype WebhookHeader = HString string | HBuffer Buffer | HArray | HOther

text \<open>
  \<^verbatim>\<open>signatures: Array<string>\<close> holds \<^verbatim>\<open>kv[1]\<close>, which is \<^verbatim>\<open>undefined\<close> (here
  \<open>None\<close>) for a token without \<^verbatim>\<open>=\<close>.
\<close>

record WebhookParsedHeader =
  signatures :: "string option list"
  timestamp :: intnum

text \<open>\<open>decodedHeader\<close> is \<open>None\<close> when the header is not a string after decoding.\<close>

record WebhookParsedEvent =
  details :: WebhookParsedHeader
  decodedPayload :: string
  decodedHeader :: "string option"

record WebhookTestHeaderOptions =
  opt_timestamp :: "number option"
  opt_payload :: string
  opt_secret :: string
  opt_scheme :: "string option"
  opt_signature :: "string option"
  opt_cryptoProvider :: "StripeCryptoProvider option"

text \<open>
  The errors the module throws: the plain \<^verbatim>\<open>Error\<close> for an array header,
  \<^verbatim>\<open>StripeError\<close>, and \<^verbatim>\<open>StripeSignatureVerificationError\<close> with its message and
  its \<^verbatim>\<open>detail\<close> (header and payload). \<^verbatim>\<open>TypeError\<close> is an exception that a function
  called by the module may raise and that the module lets through.
\<close>

datatype error =
    Error string
  | StripeError string
  | StripeSignatureVerificationError string "string option \<times> string"
  | TypeError

text \<open>
  What the module takes from outside: the UTF-8 decoding of a buffer, the
  \<^verbatim>\<open>NodeCryptoProvider\<close> instance that \<^verbatim>\<open>getNodeCryptoProvider\<close> creates once and
  then returns on every call, and what \<^verbatim>\<open>utils.secureCompare(expected, undefined)\<close> does.
  Neither the sources nor the specification say what the comparison does when the
  candidate is \<^verbatim>\<open>undefined\<close> (the \<^verbatim>\<open>kv[1]\<close> of a token without \<^verbatim>\<open>=\<close>), so it is left
  open: \<open>secureCompare_undefined\<close> gives, for the expected signature, either the boolean
  returned or the exception raised.
\<close>

record host =
  toString_utf8 :: "Buffer \<Rightarrow> string"
  NodeCryptoProvider :: StripeCryptoProvider
  secureCompare_undefined :: "string \<Rightarrow> error + bool"

definition getNodeCryptoProvider :: "host \<Rightarrow> StripeCryptoProvider" where
  "getNodeCryptoProvider h = NodeCryptoProvider h"

text \<open>
  Modelled from the spec: \<^verbatim>\<open>utils.secureCompare\<close> on two strings, of the module
  \<^verbatim>\<open>./utils\<close> that is not among the sources. The spec describes a byte-wise comparison
  against the expected signature that reports strings of unequal length as unequal and
  does not stop at the first difference: the differences of all positions are
  accumulated.
\<close>

definition secureCompare :: "string \<Rightarrow> string \<Rightarrow> bool" where
  "secureCompare a b =
     (length a = length b \<and> \<not> foldl (\<lambda>acc (x, y). acc \<or> x \<noteq> y) False (zip a b))"

text \<open>
  The call \<^verbatim>\<open>utils.secureCompare(expectedSignature, candidate)\<close> that \<^verbatim>\<open>filter\<close> makes
  for one element of \<^verbatim>\<open>details.signatures\<close>.
\<close>

definition compareCandidate :: "host \<Rightarrow> string \<Rightarrow> string option \<Rightarrow> error + bool" where
  "compareCandidate h expectedSignature candidate =
     (case candidate of
        Some s \<Rightarrow> Inr (secureCompare expectedSignature s)
      | None \<Rightarrow> secureCompare_undefined h expectedSignature)"

text \<open>
  \<^verbatim>\<open>details.signatures.filter(utils.secureCompare.bind(utils, expectedSignature))\<close>: the
  candidates are compared from left to right, and an exception raised by a comparison
  ends the loop.
\<close>

fun filter_signatures :: "host \<Rightarrow> string \<Rightarrow> string option list \<Rightarrow> error + string option list" where
  "filter_signatures h expectedSignature [] = Inr []"
| "filter_signatures h expectedSignature (c # cs) =
     (case compareCandidate h expectedSignature c of
        Inl e \<Rightarrow> Inl e
      | Inr keep \<Rightarrow>
          (case filter_signatures h expectedSignature cs of
             Inl e \<Rightarrow> Inl e
           | Inr kept \<Rightarrow> Inr (if keep then c # kept else kept)))"

subsection \<open>The functions of Webhooks.ts\<close>

definition DEFAULT_TOLERANCE :: number where
  "DEFAULT_TOLERANCE = Num 300"

definition EXPECTED_SCHEME :: string where
  "EXPECTED_SCHEME = ''v1''"

definition msg_options_required :: string where
  "msg_options_required = ''Options are required''"

definition msg_array_header :: string where
  "msg_array_header = ''Unexpected: An array was passed as a header, which should not be possible for the stripe-signature header.''"

definition msg_unable_to_extract :: string where
  "msg_unable_to_extract = ''Unable to extract timestamp and signatures from header''"

definition msg_no_signatures_scheme :: string where
  "msg_no_signatures_scheme = ''No signatures found with expected scheme''"

definition msg_no_match :: string where
  "msg_no_match = ''No signatures found matching the expected signature for payload.''
     @ '' Are you passing the raw request body you received from Stripe?''
     @ '' https://github.com/stripe/stripe-node#webhook-signing''"

definition msg_tolerance :: string where
  "msg_tolerance = ''Timestamp outside the tolerance zone''"

text \<open>The callback of \<^verbatim>\<open>reduce\<close> in \<^verbatim>\<open>parseHeader\<close>.\<close>

definition parseHeader_step :: "string \<Rightarrow> WebhookParsedHeader \<Rightarrow> string \<Rightarrow> WebhookParsedHeader" where
  "parseHeader_step scheme accum item =
     (let kv = split (CHR ''='') item;
          accum1 = (if at_index kv 0 = Some ''t''
                    then accum\<lparr>timestamp := parseInt (at_index kv 1)\<rparr> else accum);
          accum2 = (if at_index kv 0 = Some scheme
                    then accum1\<lparr>signatures := signatures accum1 @ [at_index kv 1]\<rparr> else accum1)
      in accum2)"

text \<open>\<^verbatim>\<open>parseHeader\<close>: \<open>None\<close> is the \<^verbatim>\<open>null\<close> returned for a header that is not a string.\<close>

definition parseHeader :: "string option \<Rightarrow> string \<Rightarrow> WebhookParsedHeader option" where
  "parseHeader header scheme =
     (case header of
        None \<Rightarrow> None
      | Some s \<Rightarrow>
          Some (foldl (parseHeader_step scheme)
                  \<lparr>signatures = [], timestamp = IntNum (- 1)\<rparr>
                  (split (CHR '','') s)))"

definition makeHMACContent :: "string \<Rightarrow> WebhookParsedHeader \<Rightarrow> string" where
  "makeHMACContent payload dt = numToString (timestamp dt) @ ''.'' @ payload"

definition parseEventDetails ::
  "host \<Rightarrow> WebhookPayload \<Rightarrow> WebhookHeader \<Rightarrow> string \<Rightarrow> error + WebhookParsedEvent" where
  "parseEventDetails h encodedPayload encodedHeader expectedScheme =
     (let dPayload = (case encodedPayload of
                        PBuffer b \<Rightarrow> toString_utf8 h b
                      | PString s \<Rightarrow> s)
      in if encodedHeader = HArray then Inl (Error msg_array_header)
         else
           let dHeader = (case encodedHeader of
                            HBuffer b \<Rightarrow> Some (toString_utf8 h b)
                          | HString s \<Rightarrow> Some s
                          | _ \<Rightarrow> None)
           in (case parseHeader dHeader expectedScheme of
                 None \<Rightarrow>
                   Inl (StripeSignatureVerificationError msg_unable_to_extract (dHeader, dPayload))
               | Some dt \<Rightarrow>
                   if timestamp dt = IntNum (- 1)
                   then Inl (StripeSignatureVerificationError msg_unable_to_extract (dHeader, dPayload))
                   else if length (signatures dt) = 0
                   then Inl (StripeSignatureVerificationError msg_no_signatures_scheme (dHeader, dPayload))
                   else Inr \<lparr>details = dt, decodedPayload = dPayload, decodedHeader = dHeader\<rparr>))"

definition validateComputedSignature ::
  "host \<Rightarrow> int \<Rightarrow> string \<Rightarrow> string option \<Rightarrow> WebhookParsedHeader \<Rightarrow> string \<Rightarrow> number
     \<Rightarrow> error + bool" where
  "validateComputedSignature h now payload header dt expectedSignature tolerance =
     (case filter_signatures h expectedSignature (signatures dt) of
        Inl e \<Rightarrow> Inl e
      | Inr matching \<Rightarrow>
          let signatureFound = (length matching \<noteq> 0)
          in if \<not> signatureFound
             then Inl (StripeSignatureVerificationError msg_no_match (header, payload))
             else
               let timestampAge = minus_intnum now (timestamp dt)
               in if gt tolerance (Num 0) \<and> gt (toNumber timestampAge) tolerance
                  then Inl (StripeSignatureVerificationError msg_tolerance (header, payload))
                  else Inr True)"

text \<open>
  \<^verbatim>\<open>signature.verifyHeader\<close>. The first component of the result lists the calls
  \<^verbatim>\<open>computeHMACSignature(data, secret)\<close> made to the provider, in order.
\<close>

definition verifyHeader ::
  "host \<Rightarrow> int \<Rightarrow> WebhookPayload \<Rightarrow> WebhookHeader \<Rightarrow> string \<Rightarrow> number
     \<Rightarrow> StripeCryptoProvider option \<Rightarrow> (string \<times> string) list \<times> (error + bool)" where
  "verifyHeader h now encodedPayload encodedHeader secret tolerance cryptoProvider =
     (case parseEventDetails h encodedPayload encodedHeader EXPECTED_SCHEME of
        Inl e \<Rightarrow> ([], Inl e)
      | Inr ev \<Rightarrow>
          let cp = (case cryptoProvider of Some c \<Rightarrow> c | None \<Rightarrow> getNodeCryptoProvider h);
              content = makeHMACContent (decodedPayload ev) (details ev);
              expectedSignature = computeHMACSignature cp content secret
          in ([(content, secret)],
              (case validateComputedSignature h now (decodedPayload ev) (decodedHeader ev)
                      (details ev) expectedSignature tolerance of
                 Inl e \<Rightarrow> Inl e
               | Inr _ \<Rightarrow> Inr True)))"

text \<open>
  \<^verbatim>\<open>signature.verifyHeaderAsync\<close>: the value the returned promise settles to (\<open>Inl\<close> is
  a rejection), with the calls \<^verbatim>\<open>computeHMACSignatureAsync(data, secret)\<close>.
\<close>

definition verifyHeaderAsync ::
  "host \<Rightarrow> int \<Rightarrow> WebhookPayload \<Rightarrow> WebhookHeader \<Rightarrow> string \<Rightarrow> number
     \<Rightarrow> StripeCryptoProvider option \<Rightarrow> (string \<times> string) list \<times> (error + bool)" where
  "verifyHeaderAsync h now encodedPayload encodedHeader secret tolerance cryptoProvider =
     (case parseEventDetails h encodedPayload encodedHeader EXPECTED_SCHEME of
        Inl e \<Rightarrow> ([], Inl e)
      | Inr ev \<Rightarrow>
          let cp = (case cryptoProvider of Some c \<Rightarrow> c | None \<Rightarrow> getNodeCryptoProvider h);
              content = makeHMACContent (decodedPayload ev) (details ev);
              expectedSignature = computeHMACSignatureAsync cp content secret
          in ([(content, secret)],
              validateComputedSignature h now (decodedPayload ev) (decodedHeader ev)
                (details ev) expectedSignature tolerance))"

text \<open>
  \<^verbatim>\<open>generateTestHeaderString\<close>; \<open>None\<close> is a falsy \<^verbatim>\<open>opts\<close>. The function also stores
  the defaults it computes in \<^verbatim>\<open>opts\<close>; the model returns the header only.
\<close>

definition generateTestHeaderString ::
  "host \<Rightarrow> int \<Rightarrow> WebhookTestHeaderOptions option \<Rightarrow> error + string" where
  "generateTestHeaderString h now opts =
     (case opts of
        None \<Rightarrow> Inl (StripeError msg_options_required)
      | Some opts \<Rightarrow>
          let ts = (if truthy_intnum (Math_floor (opt_timestamp opts))
                    then Math_floor (opt_timestamp opts) else IntNum now);
              scheme = (case opt_scheme opts of
                          None \<Rightarrow> EXPECTED_SCHEME
                        | Some s \<Rightarrow> if s = [] then EXPECTED_SCHEME else s);
              cp = (case opt_cryptoProvider opts of
                      None \<Rightarrow> getNodeCryptoProvider h
                    | Some c \<Rightarrow> c);
              computed = computeHMACSignature cp (numToString ts @ ''.'' @ opt_payload opts)
                           (opt_secret opts);
              sig = (case opt_signature opts of
                       None \<Rightarrow> computed
                     | Some s \<Rightarrow> if s = [] then computed else s)
          in Inr (''t='' @ numToString ts @ '','' @ scheme @ ''='' @ sig))"

text \<open>
  The \<^verbatim>\<open>tolerance\<close> argument of \<^verbatim>\<open>constructEvent\<close> and \<^verbatim>\<open>constructEventAsync\<close>:
  \<^verbatim>\<open>null\<close>, \<^verbatim>\<open>undefined\<close> (the argument left out) or a number.
\<close>

datatype tolerance_arg = Null | Undefined | Number number

text \<open>\<^verbatim>\<open>tolerance || Webhook.DEFAULT_TOLERANCE\<close>.\<close>

fun tolerance_or_default :: "tolerance_arg \<Rightarrow> number" where
  "tolerance_or_default Null = DEFAULT_TOLERANCE"
| "tolerance_or_default Undefined = DEFAULT_TOLERANCE"
| "tolerance_or_default (Number n) = (if truthy_number n then n else DEFAULT_TOLERANCE)"

text \<open>
  \<^verbatim>\<open>constructEvent\<close> and \<^verbatim>\<open>constructEventAsync\<close>. \<^verbatim>\<open>JSON.parse\<close> belongs to the host and
  is the argument \<open>JSON_parse\<close>; it is applied to the payload only after the header has
  been verified.
\<close>

definition constructEvent ::
  "host \<Rightarrow> (WebhookPayload \<Rightarrow> error + 'j) \<Rightarrow> int \<Rightarrow> WebhookPayload \<Rightarrow> WebhookHeader \<Rightarrow> string
     \<Rightarrow> tolerance_arg \<Rightarrow> StripeCryptoProvider option \<Rightarrow> (string \<times> string) list \<times> (error + 'j)" where
  "constructEvent h JSON_parse now payload header secret tolerance cryptoProvider =
     (case verifyHeader h now payload header secret (tolerance_or_default tolerance) cryptoProvider of
        (calls, Inl e) \<Rightarrow> (calls, Inl e)
      | (calls, Inr _) \<Rightarrow> (calls, JSON_parse payload))"

definition constructEventAsync ::
  "host \<Rightarrow> (WebhookPayload \<Rightarrow> error + 'j) \<Rightarrow> int \<Rightarrow> WebhookPayload \<Rightarrow> WebhookHeader \<Rightarrow> string
     \<Rightarrow> tolerance_arg \<Rightarrow> StripeCryptoProvider option \<Rightarrow> (string \<times> string) list \<times> (error + 'j)" where
  "constructEventAsync h JSON_parse now payload header secret tolerance cryptoProvider =
     (case verifyHeaderAsync h now payload header secret (tolerance_or_default tolerance) cryptoProvider of
        (calls, Inl e) \<Rightarrow> (calls, Inl e)
      | (calls, Inr _) \<Rightarrow> (calls, JSON_parse payload))"

subsection \<open>The header parser in the words of the specification\<close>

text \<open>
  The specification describes the parser by its result: the header is cut at the commas
  into tokens; the last token whose key is \<^verbatim>\<open>t\<close> gives the timestamp (\<open>-1\<close> when
  there is none); the values of the tokens whose key is the expected scheme are the
  signatures, in the order of the header; every other token is ignored. The key and the
  value of a token are \<^verbatim>\<open>kv[0]\<close> and \<^verbatim>\<open>kv[1]\<close> of the code.
\<close>

definition token_key :: "string \<Rightarrow> string option" where
  "token_key item = at_index (split (CHR ''='') item) 0"

definition token_value :: "string \<Rightarrow> string option" where
  "token_value item = at_index (split (CHR ''='') item) 1"

definition parseHeader_spec :: "string \<Rightarrow> string \<Rightarrow> WebhookParsedHeader" where
  "parseHeader_spec header scheme =
     (let tokens = split (CHR '','') header;
          stamps = filter (\<lambda>tok. token_key tok = Some ''t'') tokens
      in \<lparr>signatures = map token_value (filter (\<lambda>tok. token_key tok = Some scheme) tokens),
          timestamp = (if stamps = [] then IntNum (- 1) else parseInt (token_value (last stamps)))\<rparr>)"

subsection \<open>A concrete host for evaluating the functions\<close>

text \<open>
  A provider whose signature of \<open>data\<close> under \<open>secret\<close> is the text
  \<open>secret/data\<close>, the same in its blocking and its asynchronous method, and a host
  that uses it as its default provider and whose comparison raises on \<^verbatim>\<open>undefined\<close>.
\<close>

definition example_provider :: StripeCryptoProvider where
  "example_provider =
     \<lparr>computeHMACSignature = (\<lambda>data secret. secret @ ''/'' @ data),
      computeHMACSignatureAsync = (\<lambda>data secret. secret @ ''/'' @ data)\<rparr>"

definition example_host :: host where
  "example_host =
     \<lparr>toString_utf8 = map char_of, NodeCryptoProvider = example_provider,
      secureCompare_undefined = (\<lambda>expected. Inl TypeError)\<rparr>"

section \<open>Properties\<close>

subsection \<open>The comparison and the validation step\<close>

lemma foldl_or_neq:
  "foldl (\<lambda>acc (x, y). acc \<or> x \<noteq> y) b zs = (b \<or> (\<exists>(x, y) \<in> set zs. x \<noteq> y))"
  by (induction zs arbitrary: b) auto

lemma secureCompare_iff: "secureCompare a b = (a = b)"
proof -
  have "(a = b) = (length a = length b \<and> (\<forall>(x, y) \<in> set (zip a b). x = y))"
    by (rule list_eq_iff_zip_eq)
  then show ?thesis
    by (auto simp: secureCompare_def foldl_or_neq)
qed

lemma filter_signatures_strings:
  "None \<notin> set cs \<Longrightarrow> filter_signatures h e cs = Inr (filter (\<lambda>c. c = Some e) cs)"
proof (induction cs)
  case Nil
  show ?case by simp
next
  case (Cons c cs)
  then obtain s where c: "c = Some s" by (cases c) auto
  from Cons have "filter_signatures h e cs = Inr (filter (\<lambda>c. c = Some e) cs)" by simp
  then show ?case
    by (auto simp: c compareCandidate_def secureCompare_iff)
qed

lemma validateComputedSignature_cases:
  assumes "None \<notin> set (signatures dt)"
  shows "validateComputedSignature h now payload header dt e tolerance =
     (if Some e \<notin> set (signatures dt)
      then Inl (StripeSignatureVerificationError msg_no_match (header, payload))
      else if gt tolerance (Num 0) \<and> gt (toNumber (minus_intnum now (timestamp dt))) tolerance
      then Inl (StripeSignatureVerificationError msg_tolerance (header, payload))
      else Inr True)"
proof -
  have "(filter (\<lambda>c. c = Some e) (signatures dt) = []) = (Some e \<notin> set (signatures dt))"
    by (auto simp: filter_empty_conv)
  then show ?thesis
    unfolding validateComputedSignature_def Let_def filter_signatures_strings [OF assms]
    by simp
qed

lemma validateComputedSignature_Inr:
  "validateComputedSignature h now payload header dt e tolerance = Inr b \<Longrightarrow> b"
  unfolding validateComputedSignature_def Let_def
  by (auto split: sum.splits if_splits)

lemma validateComputedSignature_stale:
  assumes "timestamp dt = IntNum t" "gt (Num (of_int (now - t))) tolerance" "gt tolerance (Num 0)"
  shows "\<exists>err. validateComputedSignature h now payload header dt e tolerance = Inl err"
  using assms unfolding validateComputedSignature_def Let_def
  by (auto split: sum.splits)

lemma msgs_distinct:
  "msg_no_match \<noteq> msg_tolerance" "msg_unable_to_extract \<noteq> msg_no_signatures_scheme"
  by (simp_all add: msg_no_match_def msg_tolerance_def msg_unable_to_extract_def msg_no_signatures_scheme_def)

subsection \<open>verifyHeader once the header is parsed\<close>

lemma verifyHeader_parsed:
  assumes "parseEventDetails h encodedPayload encodedHeader EXPECTED_SCHEME = Inr ev"
  shows "verifyHeader h now encodedPayload encodedHeader secret tolerance cryptoProvider =
     ([(makeHMACContent (decodedPayload ev) (details ev), secret)],
      validateComputedSignature h now (decodedPayload ev) (decodedHeader ev) (details ev)
        (computeHMACSignature (case cryptoProvider of Some c \<Rightarrow> c | None \<Rightarrow> getNodeCryptoProvider h)
           (makeHMACContent (decodedPayload ev) (details ev)) secret) tolerance)"
proof -
  have "\<And>r. (case r of Inl e \<Rightarrow> Inl e | Inr (_::bool) \<Rightarrow> Inr True) = r
           \<longleftrightarrow> (\<forall>b. r = (Inr b :: error + bool) \<longrightarrow> b)"
    by (auto split: sum.splits)
  then show ?thesis
    using assms unfolding verifyHeader_def Let_def
    by (auto dest: validateComputedSignature_Inr split: sum.splits)
qed

lemma verifyHeaderAsync_parsed:
  assumes "parseEventDetails h encodedPayload encodedHeader EXPECTED_SCHEME = Inr ev"
  shows "verifyHeaderAsync h now encodedPayload encodedHeader secret tolerance cryptoProvider =
     ([(makeHMACContent (decodedPayload ev) (details ev), secret)],
      validateComputedSignature h now (decodedPayload ev) (decodedHeader ev) (details ev)
        (computeHMACSignatureAsync (case cryptoProvider of Some c \<Rightarrow> c | None \<Rightarrow> getNodeCryptoProvider h)
           (makeHMACContent (decodedPayload ev) (details ev)) secret) tolerance)"
  using assms unfolding verifyHeaderAsync_def Let_def by simp

lemma verifyHeader_unparsed:
  assumes "parseEventDetails h encodedPayload encodedHeader EXPECTED_SCHEME = Inl e"
  shows "verifyHeader h now encodedPayload encodedHeader secret tolerance cryptoProvider = ([], Inl e)"
    and "verifyHeaderAsync h now encodedPayload encodedHeader secret tolerance cryptoProvider = ([], Inl e)"
  using assms unfolding verifyHeader_def verifyHeaderAsync_def by simp_all

lemma parseEventDetails_string:
  "parseHeader (Some header) scheme = Some dt \<Longrightarrow>
   parseEventDetails h encodedPayload (HString header) scheme =
     (let dp = (case encodedPayload of PBuffer b \<Rightarrow> toString_utf8 h b | PString s \<Rightarrow> s)
      in if timestamp dt = IntNum (- 1)
         then Inl (StripeSignatureVerificationError msg_unable_to_extract (Some header, dp))
         else if signatures dt = []
         then Inl (StripeSignatureVerificationError msg_no_signatures_scheme (Some header, dp))
         else Inr \<lparr>details = dt, decodedPayload = dp, decodedHeader = Some header\<rparr>)"
  by (simp add: parseEventDetails_def Let_def)

subsection \<open>Splitting and scanning the header\<close>

lemma split_nonempty: "split c s \<noteq> []"
  by (induction s) (auto split: list.splits)

lemma split_first_rest:
  "split c s = takeWhile (\<lambda>x. x \<noteq> c) s
     # (case dropWhile (\<lambda>x. x \<noteq> c) s of [] \<Rightarrow> [] | _ # r \<Rightarrow> split c r)"
proof (induction s)
  case Nil
  show ?case by simp
next
  case (Cons x xs)
  show ?case
  proof (cases "x = c")
    case True
    then show ?thesis by simp
  next
    case False
    with Cons show ?thesis by simp
  qed
qed

lemma split_notin: "c \<notin> set s \<Longrightarrow> split c s = [s]"
proof -
  assume a: "c \<notin> set s"
  then have t: "takeWhile (\<lambda>x. x \<noteq> c) s = s" and d: "dropWhile (\<lambda>x. x \<noteq> c) s = []"
    by (auto simp: takeWhile_eq_all_conv)
  show ?thesis by (subst split_first_rest) (simp add: t d)
qed

lemma split_append: "c \<notin> set a \<Longrightarrow> split c (a @ c # b) = a # split c b"
proof -
  assume a: "c \<notin> set a"
  then have "\<forall>x\<in>set a. x \<noteq> c" by auto
  then have t: "takeWhile (\<lambda>x. x \<noteq> c) (a @ c # b) = a"
    and d: "dropWhile (\<lambda>x. x \<noteq> c) (a @ c # b) = c # b"
    by (simp_all add: takeWhile_tail dropWhile_append3)
  show ?thesis by (subst split_first_rest) (simp add: t d)
qed

lemma at_index_split_0: "at_index (split c s) 0 = Some (takeWhile (\<lambda>x. x \<noteq> c) s)"
  by (subst split_first_rest) (simp add: at_index_def)

lemma at_index_split_1:
  "at_index (split c s) (Suc 0) =
     (case dropWhile (\<lambda>x. x \<noteq> c) s of [] \<Rightarrow> None | _ # r \<Rightarrow> Some (takeWhile (\<lambda>x. x \<noteq> c) r))"
proof (cases "dropWhile (\<lambda>x. x \<noteq> c) s")
  case Nil
  show ?thesis by (subst split_first_rest) (simp add: at_index_def Nil)
next
  case (Cons y r)
  have ne: "split c r \<noteq> []" by (rule split_nonempty)
  have z: "split c r ! 0 = takeWhile (\<lambda>x. x \<noteq> c) r"
    by (subst split_first_rest) simp
  show ?thesis
    by (subst split_first_rest) (simp add: at_index_def Cons ne z)
qed

lemma parseHeader_step_fields:
  "signatures (parseHeader_step scheme accum item) =
     (if token_key item = Some scheme then signatures accum @ [token_value item] else signatures accum)"
  "timestamp (parseHeader_step scheme accum item) =
     (if token_key item = Some ''t'' then parseInt (token_value item) else timestamp accum)"
  by (simp_all add: parseHeader_step_def token_key_def token_value_def Let_def)

lemma foldl_parseHeader_step:
  "signatures (foldl (parseHeader_step scheme) accum tokens) =
     signatures accum @ map token_value (filter (\<lambda>tok. token_key tok = Some scheme) tokens)"
  "timestamp (foldl (parseHeader_step scheme) accum tokens) =
     (if filter (\<lambda>tok. token_key tok = Some ''t'') tokens = [] then timestamp accum
      else parseInt (token_value (last (filter (\<lambda>tok. token_key tok = Some ''t'') tokens))))"
  by (induction tokens rule: rev_induct) (simp_all add: parseHeader_step_fields)

subsection \<open>The wrappers constructEvent and constructEventAsync\<close>

lemma constructEvent_eq:
  "constructEvent h J now payload header secret tolerance cp =
     (let r = verifyHeader h now payload header secret (tolerance_or_default tolerance) cp
      in (fst r, case snd r of Inl e \<Rightarrow> Inl e | Inr _ \<Rightarrow> J payload))"
  by (simp add: constructEvent_def Let_def split: prod.splits sum.splits)

lemma constructEventAsync_eq:
  "constructEventAsync h J now payload header secret tolerance cp =
     (let r = verifyHeaderAsync h now payload header secret (tolerance_or_default tolerance) cp
      in (fst r, case snd r of Inl e \<Rightarrow> Inl e | Inr _ \<Rightarrow> J payload))"
  by (simp add: constructEventAsync_def Let_def split: prod.splits sum.splits)

subsection \<open>Decimal digits: printing a number and parsing it back\<close>

lemma digit_char_props:
  assumes "0 \<le> d" "d < 10"
  shows "isDigit (digit_char d)" "digit_val (digit_char d) = d"
proof -
  from assms have "d = 0 \<or> d = 1 \<or> d = 2 \<or> d = 3 \<or> d = 4 \<or> d = 5 \<or> d = 6 \<or> d = 7 \<or> d = 8 \<or> d = 9"
    by arith
  then show "isDigit (digit_char d)" "digit_val (digit_char d) = d"
    by (auto simp: isDigit_def digit_val_def digit_char_def)
qed

lemma digits_value_snoc: "digits_value (z @ [c]) = 10 * digits_value z + digit_val c"
  by (simp add: digits_value_def)

lemma digits_small: "n < 10 \<Longrightarrow> digits n = [digit_char n]"
  by (subst digits.simps) simp

lemma digits_large: "\<not> n < 10 \<Longrightarrow> digits n = digits (n div 10) @ [digit_char (n mod 10)]"
  by (subst digits.simps) simp

lemma digits_props:
  "0 \<le> n \<Longrightarrow> digits n \<noteq> [] \<and> (\<forall>c \<in> set (digits n). isDigit c) \<and> digits_value (digits n) = n"
proof (induction n rule: digits.induct)
  case (1 n)
  show ?case
  proof (cases "n < 10")
    case True
    with 1(2) show ?thesis
      by (simp add: digits_small digit_char_props digits_value_def)
  next
    case False
    then have "0 \<le> n div 10" by simp
    with 1(1) False have ih: "\<forall>c \<in> set (digits (n div 10)). isDigit c"
      "digits_value (digits (n div 10)) = n div 10"
      by simp_all
    have m: "0 \<le> n mod 10" "n mod 10 < 10" by simp_all
    from ih show ?thesis
      by (simp add: digits_large [OF False] digits_value_snoc digit_char_props [OF m])
  qed
qed

lemma isDigit_not_special:
  "isDigit c \<Longrightarrow> \<not> isWhiteSpace c \<and> c \<noteq> CHR ''-'' \<and> c \<noteq> CHR ''+'' \<and> c \<noteq> CHR '','' \<and> c \<noteq> CHR ''=''"
  by (auto simp: isDigit_def isWhiteSpace_def)

lemma takeWhile_all: "\<forall>c \<in> set z. P c \<Longrightarrow> takeWhile P z = z"
  by simp

lemma parseInt_digits:
  assumes ne: "z \<noteq> []" and dg: "\<forall>c \<in> set z. isDigit c"
  shows "parseInt (Some z) = IntNum (digits_value z)"
    and "parseInt (Some (CHR ''-'' # z)) = IntNum (- digits_value z)"
proof -
  from ne obtain c r where z: "z = c # r" by (cases z) auto
  with dg have c: "isDigit c" by simp
  note sp = isDigit_not_special [OF c]
  have tr: "takeWhile isDigit r = r"
    using dg unfolding z by (intro takeWhile_all) simp
  show "parseInt (Some z) = IntNum (digits_value z)"
    by (simp add: parseInt_def Let_def z sp c tr)
  have w: "\<not> isWhiteSpace CHR ''-''"
    by (simp add: isWhiteSpace_def)
  show "parseInt (Some (CHR ''-'' # z)) = IntNum (- digits_value z)"
    by (simp add: parseInt_def Let_def z w c tr)
qed

lemma parseInt_numToString: "parseInt (Some (numToString (IntNum i))) = IntNum i"
proof (cases "i < 0")
  case True
  then have "0 \<le> - i" by simp
  from digits_props [OF this] have "parseInt (Some (CHR ''-'' # digits (- i))) = IntNum (- (- i))"
    by (simp add: parseInt_digits(2))
  with True show ?thesis by simp
next
  case False
  then have "0 \<le> i" by simp
  from digits_props [OF this] have "parseInt (Some (digits i)) = IntNum i"
    by (simp add: parseInt_digits(1))
  with False show ?thesis by simp
qed

lemma numToString_no_separator:
  "CHR '','' \<notin> set (numToString (IntNum i))" "CHR ''='' \<notin> set (numToString (IntNum i))"
proof -
  have a: "\<forall>c \<in> set (digits i). isDigit c" if "0 \<le> i"
    using digits_props [OF that] by simp
  have b: "\<forall>c \<in> set (digits (- i)). isDigit c" if "i < 0"
    using digits_props [of "- i"] that by simp
  have "\<forall>c \<in> set (numToString (IntNum i)). isDigit c \<or> c = CHR ''-''"
    using a b by (cases "i < 0") simp_all
  then show "CHR '','' \<notin> set (numToString (IntNum i))" "CHR ''='' \<notin> set (numToString (IntNum i))"
    using isDigit_not_special by blast+
qed

subsection \<open>Parsing a generated header\<close>

lemma split_key_value:
  assumes "c \<notin> set k" "c \<notin> set v"
  shows "split c (k @ c # v) = [k, v]"
  using assms by (simp add: split_append split_notin)

lemma parseHeader_generated:
  assumes nocomma: "CHR '','' \<notin> set sig" and noeq: "CHR ''='' \<notin> set sig"
  shows "parseHeader (Some (''t='' @ numToString (IntNum t) @ '',v1='' @ sig)) ''v1''
           = Some \<lparr>signatures = [Some sig], timestamp = IntNum t\<rparr>"
proof -
  let ?D = "numToString (IntNum t)"
  have c1: "CHR '','' \<notin> set (''t='' @ ?D)"
    using numToString_no_separator(1) [of t] by (simp del: numToString.simps)
  have c2: "CHR '','' \<notin> set (''v1='' @ sig)"
    using nocomma by simp
  have "split (CHR '','') ((''t='' @ ?D) @ CHR '','' # (''v1='' @ sig)) = [''t='' @ ?D, ''v1='' @ sig]"
    using c1 c2 by (rule split_key_value)
  then have s0: "split (CHR '','') (''t='' @ ?D @ '',v1='' @ sig) = [''t='' @ ?D, ''v1='' @ sig]"
    by (simp del: numToString.simps)
  have "split (CHR ''='') (''t'' @ CHR ''='' # ?D) = [''t'', ?D]"
    using numToString_no_separator(2) [of t] by (intro split_key_value) (simp_all del: numToString.simps)
  then have s1: "split (CHR ''='') (''t='' @ ?D) = [''t'', ?D]"
    by (simp del: numToString.simps)
  have "split (CHR ''='') (''v1'' @ CHR ''='' # sig) = [''v1'', sig]"
    using noeq by (intro split_key_value) simp_all
  then have s2: "split (CHR ''='') (''v1='' @ sig) = [''v1'', sig]"
    by simp
  have k1: "parseHeader_step ''v1'' \<lparr>signatures = [], timestamp = IntNum (- 1)\<rparr> (''t='' @ ?D)
              = \<lparr>signatures = [], timestamp = IntNum t\<rparr>"
    unfolding parseHeader_step_def s1 Let_def
    by (simp add: at_index_def parseInt_numToString del: numToString.simps)
  have k2: "parseHeader_step ''v1'' \<lparr>signatures = [], timestamp = IntNum t\<rparr> (''v1='' @ sig)
              = \<lparr>signatures = [Some sig], timestamp = IntNum t\<rparr>"
    unfolding parseHeader_step_def s2 Let_def
    by (simp add: at_index_def)
  show ?thesis
    unfolding parseHeader_def option.case s0 foldl.simps k1 k2 ..
qed

subsection \<open>Generating a header and verifying it\<close>

text \<open>
  Counterexample to claim C1 as stated ("for every timestamp"). With the timestamp \<open>-1\<close>
  the generated header is \<^verbatim>\<open>t=-1,v1=...\<close>; the parser reads the timestamp \<open>-1\<close>, which
  is the sentinel for "no timestamp found", and \<^verbatim>\<open>verifyHeader\<close> raises "Unable to extract
  timestamp and signatures from header".
\<close>

theorem generateTestHeaderString_sentinel_counterexample:
  "generateTestHeaderString example_host 100
      (Some \<lparr>opt_timestamp = Some (Num (- 1)), opt_payload = ''p'', opt_secret = ''s'',
             opt_scheme = None, opt_signature = None, opt_cryptoProvider = None\<rparr>)
     = Inr ''t=-1,v1=s/-1.p''
   \<and> verifyHeader example_host 100 (PString ''p'') (HString ''t=-1,v1=s/-1.p'') ''s'' (Num 0) None
     = ([], Inl (StripeSignatureVerificationError msg_unable_to_extract
                  (Some ''t=-1,v1=s/-1.p'', ''p'')))"
  by code_simp

text \<open>
  Claim C1, as the code has it. Let \<open>t\<close> be the timestamp the generator uses: the floor of
  \<^verbatim>\<open>opts.timestamp\<close>, or the generator's clock when that floor is 0 or NaN. If \<open>t\<close> is not
  \<open>-1\<close>, lies in the range where doubles are exact integers, and the signature the provider
  computes contains neither \<^verbatim>\<open>,\<close> nor \<^verbatim>\<open>=\<close>, then the generated header is
  \<^verbatim>\<open>t=\<close>\<open>t\<close>\<^verbatim>\<open>,v1=\<close>\<open>signature\<close> and \<^verbatim>\<open>verifyHeader\<close> with tolerance 0 and the same provider
  returns \<open>true\<close>, whatever the time of the verification.
\<close>

theorem generateTestHeaderString_verifyHeader_roundtrip:
  assumes ts: "(if truthy_intnum (Math_floor tsopt) then Math_floor tsopt else IntNum now_g) = IntNum t"
    and sentinel: "t \<noteq> - 1"
    and safe: "\<bar>t\<bar> < 2 ^ 53"
    and provider: "cp = (case cryptoProvider of Some c \<Rightarrow> c | None \<Rightarrow> getNodeCryptoProvider h)"
    and sig: "sig = computeHMACSignature cp (numToString (IntNum t) @ ''.'' @ payload) secret"
    and nocomma: "CHR '','' \<notin> set sig" and noeq: "CHR ''='' \<notin> set sig"
    and hdr: "header = ''t='' @ numToString (IntNum t) @ '',v1='' @ sig"
  shows "generateTestHeaderString h now_g
           (Some \<lparr>opt_timestamp = tsopt, opt_payload = payload, opt_secret = secret,
                  opt_scheme = None, opt_signature = None, opt_cryptoProvider = cryptoProvider\<rparr>)
           = Inr header
       \<and> verifyHeader h now_v (PString payload) (HString header) secret (Num 0) cryptoProvider
           = ([(numToString (IntNum t) @ ''.'' @ payload, secret)], Inr True)"
proof
  have cp': "(case cryptoProvider of None \<Rightarrow> getNodeCryptoProvider h | Some c \<Rightarrow> c) = cp"
    unfolding provider by (cases cryptoProvider) simp_all
  have sig': "computeHMACSignature cp (numToString (IntNum t) @ CHR ''.'' # payload) secret = sig"
    using sig by (simp del: numToString.simps)
  show "generateTestHeaderString h now_g
           (Some \<lparr>opt_timestamp = tsopt, opt_payload = payload, opt_secret = secret,
                  opt_scheme = None, opt_signature = None, opt_cryptoProvider = cryptoProvider\<rparr>)
           = Inr header"
  proof (cases "truthy_intnum (Math_floor tsopt)")
    case True
    with ts have "Math_floor tsopt = IntNum t" by simp
    with True show ?thesis
      unfolding generateTestHeaderString_def Let_def
      by (simp add: cp' sig' hdr EXPECTED_SCHEME_def del: numToString.simps)
  next
    case False
    with ts have "now_g = t" by simp
    with False show ?thesis
      unfolding generateTestHeaderString_def Let_def
      by (simp add: cp' sig' hdr EXPECTED_SCHEME_def del: numToString.simps)
  qed
  have ph: "parseHeader (Some header) EXPECTED_SCHEME = Some \<lparr>signatures = [Some sig], timestamp = IntNum t\<rparr>"
    unfolding hdr EXPECTED_SCHEME_def using nocomma noeq by (rule parseHeader_generated)
  have pe: "parseEventDetails h (PString payload) (HString header) EXPECTED_SCHEME
              = Inr \<lparr>details = \<lparr>signatures = [Some sig], timestamp = IntNum t\<rparr>,
                     decodedPayload = payload, decodedHeader = Some header\<rparr>"
    using sentinel by (simp add: parseEventDetails_string [OF ph])
  have mc: "makeHMACContent payload \<lparr>signatures = [Some sig], timestamp = IntNum t\<rparr>
              = numToString (IntNum t) @ ''.'' @ payload"
    by (simp add: makeHMACContent_def)
  show "verifyHeader h now_v (PString payload) (HString header) secret (Num 0) cryptoProvider
           = ([(numToString (IntNum t) @ ''.'' @ payload, secret)], Inr True)"
    unfolding verifyHeader_parsed [OF pe]
    by (simp add: mc provider [symmetric] sig' validateComputedSignature_cases
          del: numToString.simps)
qed

theorem generateTestHeaderString_verifyHeader_roundtrip_witness:
  "generateTestHeaderString example_host 100
      (Some \<lparr>opt_timestamp = Some (Num 1614556800), opt_payload = ''p'', opt_secret = ''s'',
             opt_scheme = None, opt_signature = None, opt_cryptoProvider = None\<rparr>)
     = Inr ''t=1614556800,v1=s/1614556800.p''
   \<and> verifyHeader example_host 2000000000 (PString ''p'')
       (HString ''t=1614556800,v1=s/1614556800.p'') ''s'' (Num 0) None
     = ([(''1614556800.p'', ''s'')], Inr True)"
proof -
  have ts: "(if truthy_intnum (Math_floor (Some (Num 1614556800)))
             then Math_floor (Some (Num 1614556800)) else IntNum 100) = IntNum 1614556800"
    by simp
  have sentinel: "(1614556800::int) \<noteq> - 1" by simp
  have safe: "\<bar>1614556800::int\<bar> < 2 ^ 53" by simp
  have provider: "example_provider
      = (case None of Some c \<Rightarrow> c | None \<Rightarrow> getNodeCryptoProvider example_host)"
    by (simp add: getNodeCryptoProvider_def example_host_def)
  have d: "numToString (IntNum 1614556800) = ''1614556800''"
    by code_simp
  have sig: "''s/1614556800.p''
      = computeHMACSignature example_provider (numToString (IntNum 1614556800) @ ''.'' @ ''p'') ''s''"
    unfolding d by (simp add: example_provider_def)
  have nocomma: "CHR '','' \<notin> set ''s/1614556800.p''" by simp
  have noeq: "CHR ''='' \<notin> set ''s/1614556800.p''" by simp
  have hdr: "''t=1614556800,v1=s/1614556800.p''
      = ''t='' @ numToString (IntNum 1614556800) @ '',v1='' @ ''s/1614556800.p''"
    unfolding d by simp
  from generateTestHeaderString_verifyHeader_roundtrip
         [OF ts sentinel safe provider sig nocomma noeq hdr, where now_v = 2000000000]
  show ?thesis unfolding d by simp
qed

subsection \<open>Order of the signature check and the timestamp check\<close>



subsection \<open>Failures before the HMAC is computed\<close>

text \<open>
  Claim C3. A parsed header whose timestamp is \<open>-1\<close> makes \<^verbatim>\<open>verifyHeader\<close> raise
  "Unable to extract timestamp and signatures from header"; a timestamp other than \<open>-1\<close>
  with an empty list of signatures raises the different error "No signatures found with
  expected scheme"; in both cases the list of provider calls is empty.
\<close>

theorem verifyHeader_rejects_before_hmac:
  assumes parsed: "parseHeader (Some header) EXPECTED_SCHEME = Some dt"
    and payload: "dp = (case encodedPayload of PBuffer b \<Rightarrow> toString_utf8 h b | PString s \<Rightarrow> s)"
  shows "(timestamp dt = IntNum (- 1) \<longrightarrow>
            verifyHeader h now encodedPayload (HString header) secret tolerance cryptoProvider
              = ([], Inl (StripeSignatureVerificationError msg_unable_to_extract (Some header, dp))))
       \<and> (timestamp dt \<noteq> IntNum (- 1) \<and> signatures dt = [] \<longrightarrow>
            verifyHeader h now encodedPayload (HString header) secret tolerance cryptoProvider
              = ([], Inl (StripeSignatureVerificationError msg_no_signatures_scheme (Some header, dp))))
       \<and> msg_unable_to_extract \<noteq> msg_no_signatures_scheme"
proof -
  have a: "verifyHeader h now encodedPayload (HString header) secret tolerance cryptoProvider
             = ([], Inl (StripeSignatureVerificationError msg_unable_to_extract (Some header, dp)))"
    if "timestamp dt = IntNum (- 1)"
    using that payload by (simp add: verifyHeader_def parseEventDetails_string [OF parsed])
  have b: "verifyHeader h now encodedPayload (HString header) secret tolerance cryptoProvider
             = ([], Inl (StripeSignatureVerificationError msg_no_signatures_scheme (Some header, dp)))"
    if "timestamp dt \<noteq> IntNum (- 1)" "signatures dt = []"
    using that payload by (simp add: verifyHeader_def parseEventDetails_string [OF parsed])
  from a b msgs_distinct(2) show ?thesis by blast
qed

theorem verifyHeader_rejects_before_hmac_witness:
  "verifyHeader example_host 100 (PString ''p'') (HString ''v1=deadbeef'') ''s'' (Num 300) None
     = ([], Inl (StripeSignatureVerificationError msg_unable_to_extract (Some ''v1=deadbeef'', ''p'')))
   \<and> verifyHeader example_host 100 (PString ''p'') (HString ''t=5,v0=deadbeef'') ''s'' (Num 300) None
     = ([], Inl (StripeSignatureVerificationError msg_no_signatures_scheme (Some ''t=5,v0=deadbeef'', ''p'')))"
proof -
  have p1: "parseHeader (Some ''v1=deadbeef'') EXPECTED_SCHEME
              = Some \<lparr>signatures = [Some ''deadbeef''], timestamp = IntNum (- 1)\<rparr>"
    by code_simp
  have p2: "parseHeader (Some ''t=5,v0=deadbeef'') EXPECTED_SCHEME
              = Some \<lparr>signatures = [], timestamp = IntNum 5\<rparr>"
    by code_simp
  have d: "''p'' = (case PString ''p'' of PBuffer b \<Rightarrow> toString_utf8 example_host b | PString s \<Rightarrow> s)"
    by simp
  from verifyHeader_rejects_before_hmac [OF p1 d, THEN conjunct1]
       verifyHeader_rejects_before_hmac [OF p2 d, THEN conjunct2, THEN conjunct1]
  show ?thesis by simp
qed

subsection \<open>A matching candidate among several\<close>

text \<open>
  Counterexample to claim C7 as stated. In the header \<^verbatim>\<open>t=5,v1=bad,v1=s/5.p\<close> the second
  candidate equals the computed HMAC, yet with tolerance 94 at time 100 \<^verbatim>\<open>verifyHeader\<close>
  does not succeed: the timestamp is 95 seconds old and the error is "Timestamp outside
  the tolerance zone".
\<close>

theorem verifyHeader_matching_candidate_expired_counterexample:
  "parseHeader (Some ''t=5,v1=bad,v1=s/5.p'') EXPECTED_SCHEME
     = Some \<lparr>signatures = [Some ''bad'', Some ''s/5.p''], timestamp = IntNum 5\<rparr>
   \<and> computeHMACSignature (getNodeCryptoProvider example_host) ''5.p'' ''s'' = ''s/5.p''
   \<and> verifyHeader example_host 100 (PString ''p'') (HString ''t=5,v1=bad,v1=s/5.p'') ''s''
       (Num 94) None
     = ([(''5.p'', ''s'')],
        Inl (StripeSignatureVerificationError msg_tolerance (Some ''t=5,v1=bad,v1=s/5.p'', ''p'')))"
  by code_simp

text \<open>
  Claim C7, as the code has it. When one of the candidate signatures equals the computed
  HMAC, at any position and among any number of other candidates that are strings, the
  signature check of \<^verbatim>\<open>verifyHeader\<close> passes: the result is \<open>true\<close>, unless
  \<^verbatim>\<open>tolerance > 0\<close> and \<^verbatim>\<open>now - timestamp > tolerance\<close>, in which case it is the error
  "Timestamp outside the tolerance zone"; it is never the signature mismatch.
\<close>

theorem verifyHeader_any_candidate_matches:
  assumes parsed: "parseEventDetails h encodedPayload encodedHeader EXPECTED_SCHEME = Inr ev"
    and hmac: "expectedSignature =
                 computeHMACSignature (case cryptoProvider of Some c \<Rightarrow> c | None \<Rightarrow> getNodeCryptoProvider h)
                   (makeHMACContent (decodedPayload ev) (details ev)) secret"
    and candidates: "signatures (details ev) = before @ [Some expectedSignature] @ after"
    and strings: "None \<notin> set before" "None \<notin> set after"
  shows "verifyHeader h now encodedPayload encodedHeader secret tolerance cryptoProvider
           = ([(makeHMACContent (decodedPayload ev) (details ev), secret)],
              if gt tolerance (Num 0)
                 \<and> gt (toNumber (minus_intnum now (timestamp (details ev)))) tolerance
              then Inl (StripeSignatureVerificationError msg_tolerance
                          (decodedHeader ev, decodedPayload ev))
              else Inr True)"
proof -
  have found: "Some expectedSignature \<in> set (signatures (details ev))"
    by (simp add: candidates)
  have all_strings: "None \<notin> set (signatures (details ev))"
    using strings by (simp add: candidates)
  show ?thesis
    using found
    unfolding verifyHeader_parsed [OF parsed] hmac [symmetric]
      validateComputedSignature_cases [OF all_strings]
    by simp
qed

theorem verifyHeader_any_candidate_matches_witness:
  "verifyHeader example_host 100 (PString ''p'') (HString ''t=5,v1=bad,v1=s/5.p,v1=other'') ''s''
     (Num 300) None = ([(''5.p'', ''s'')], Inr True)"
proof -
  have p: "parseEventDetails example_host (PString ''p'') (HString ''t=5,v1=bad,v1=s/5.p,v1=other'')
             EXPECTED_SCHEME
     = Inr \<lparr>details = \<lparr>signatures = [Some ''bad'', Some ''s/5.p'', Some ''other''],
                         timestamp = IntNum 5\<rparr>,
            decodedPayload = ''p'', decodedHeader = Some ''t=5,v1=bad,v1=s/5.p,v1=other''\<rparr>"
    by code_simp
  have c: "makeHMACContent ''p''
             \<lparr>signatures = [Some ''bad'', Some ''s/5.p'', Some ''other''], timestamp = IntNum 5\<rparr>
           = ''5.p''"
    by code_simp
  have e: "''s/5.p'' = computeHMACSignature
             (case None of Some c \<Rightarrow> c | None \<Rightarrow> getNodeCryptoProvider example_host)
             (makeHMACContent
                (decodedPayload \<lparr>details = \<lparr>signatures = [Some ''bad'', Some ''s/5.p'', Some ''other''],
                         timestamp = IntNum 5\<rparr>,
            decodedPayload = ''p'', decodedHeader = Some ''t=5,v1=bad,v1=s/5.p,v1=other''\<rparr>)
                (details \<lparr>details = \<lparr>signatures = [Some ''bad'', Some ''s/5.p'', Some ''other''],
                         timestamp = IntNum 5\<rparr>,
            decodedPayload = ''p'', decodedHeader = Some ''t=5,v1=bad,v1=s/5.p,v1=other''\<rparr>)) ''s''"
    by code_simp
  have s: "signatures (details \<lparr>details = \<lparr>signatures = [Some ''bad'', Some ''s/5.p'', Some ''other''],
                         timestamp = IntNum 5\<rparr>,
            decodedPayload = ''p'', decodedHeader = Some ''t=5,v1=bad,v1=s/5.p,v1=other''\<rparr>)
             = [Some ''bad''] @ [Some ''s/5.p''] @ [Some ''other'']"
    by simp
  have n1: "None \<notin> set [Some ''bad'']" and n2: "None \<notin> set [Some ''other'']"
    by simp_all
  from verifyHeader_any_candidate_matches [OF p e s n1 n2, where now = 100 and tolerance = "Num 300"]
  show ?thesis by (simp add: c)
qed

subsection \<open>The asynchronous entry point\<close>

text \<open>
  Claim C8. For a provider whose two methods compute the same function,
  \<^verbatim>\<open>verifyHeaderAsync\<close> settles to what \<^verbatim>\<open>verifyHeader\<close> returns, with the same error and
  the same provider calls, for every payload, header, secret and tolerance.
\<close>

theorem verifyHeaderAsync_equals_verifyHeader:
  assumes provider: "cp = (case cryptoProvider of Some c \<Rightarrow> c | None \<Rightarrow> getNodeCryptoProvider h)"
    and same: "computeHMACSignatureAsync cp = computeHMACSignature cp"
  shows "verifyHeaderAsync h now encodedPayload encodedHeader secret tolerance cryptoProvider
           = verifyHeader h now encodedPayload encodedHeader secret tolerance cryptoProvider"
proof (cases "parseEventDetails h encodedPayload encodedHeader EXPECTED_SCHEME")
  case (Inl e)
  then show ?thesis by (simp add: verifyHeader_unparsed)
next
  case (Inr ev)
  show ?thesis
    unfolding verifyHeader_parsed [OF Inr] verifyHeaderAsync_parsed [OF Inr] provider [symmetric] same ..
qed

theorem verifyHeaderAsync_equals_verifyHeader_witness:
  "computeHMACSignatureAsync example_provider = computeHMACSignature example_provider
   \<and> verifyHeaderAsync example_host 100 (PString ''p'') (HString ''t=5,v1=s/5.p'') ''s'' (Num 94)
         (Some example_provider)
     = verifyHeader example_host 100 (PString ''p'') (HString ''t=5,v1=s/5.p'') ''s'' (Num 94)
         (Some example_provider)"
proof -
  have s: "computeHMACSignatureAsync example_provider = computeHMACSignature example_provider"
    by (simp add: example_provider_def)
  have c: "example_provider = (case Some example_provider of Some c \<Rightarrow> c | None \<Rightarrow> getNodeCryptoProvider example_host)"
    by simp
  from s verifyHeaderAsync_equals_verifyHeader [OF c s] show ?thesis by blast
qed

subsection \<open>What parseHeader returns\<close>

text \<open>
  Claim C4. For every string header, \<^verbatim>\<open>parseHeader\<close> returns what the scan of the
  comma-separated tokens gives: the timestamp of the last token with key \<^verbatim>\<open>t\<close>, the
  values of the tokens with the expected scheme in the order they occur, nothing from the
  other tokens. The header \<^verbatim>\<open>t=1614556800,v1=deadbeef\<close> with scheme \<^verbatim>\<open>v1\<close> gives the
  timestamp 1614556800 and the one signature \<^verbatim>\<open>deadbeef\<close>.
\<close>

theorem parseHeader_scans_tokens:
  "parseHeader (Some header) scheme = Some (parseHeader_spec header scheme)
   \<and> parseHeader (Some ''t=1614556800,v1=deadbeef'') ''v1''
       = Some \<lparr>signatures = [Some ''deadbeef''], timestamp = IntNum 1614556800\<rparr>"
proof
  show "parseHeader (Some header) scheme = Some (parseHeader_spec header scheme)"
    by (simp add: parseHeader_def parseHeader_spec_def Let_def foldl_parseHeader_step)
  show "parseHeader (Some ''t=1614556800,v1=deadbeef'') ''v1''
       = Some \<lparr>signatures = [Some ''deadbeef''], timestamp = IntNum 1614556800\<rparr>"
    by code_simp
qed

theorem parseHeader_scans_tokens_witness:
  "parseHeader (Some ''t=1,x=9,v1=a,t=2,v0=b,v1=c'') ''v1''
     = Some \<lparr>signatures = [Some ''a'', Some ''c''], timestamp = IntNum 2\<rparr>"
proof -
  have "parseHeader_spec ''t=1,x=9,v1=a,t=2,v0=b,v1=c'' ''v1''
          = \<lparr>signatures = [Some ''a'', Some ''c''], timestamp = IntNum 2\<rparr>"
    by code_simp
  with parseHeader_scans_tokens [of "''t=1,x=9,v1=a,t=2,v0=b,v1=c''" "''v1''"]
  show ?thesis by simp
qed

subsection \<open>The value of a token\<close>

text \<open>
  Counterexample to claim C5 as stated. The token \<^verbatim>\<open>v1=abc=def\<close> records the signature \<^verbatim>\<open>abc\<close>, not the whole remainder
  \<^verbatim>\<open>abc=def\<close>: \<^verbatim>\<open>item.split('=')\<close> cuts at every \<^verbatim>\<open>=\<close> and the code reads \<^verbatim>\<open>kv[1]\<close>.
\<close>

theorem parseHeader_value_full_remainder_counterexample:
  "parseHeader (Some ''v1=abc=def'') ''v1''
     = Some \<lparr>signatures = [Some ''abc''], timestamp = IntNum (- 1)\<rparr>
   \<and> parseHeader (Some ''v1=abc=def'') ''v1''
     \<noteq> Some \<lparr>signatures = [Some ''abc=def''], timestamp = IntNum (- 1)\<rparr>"
  by code_simp

text \<open>
  Claim C5, as the code has it. Each token is cut at every \<^verbatim>\<open>=\<close>: the key is the text
  before the first \<^verbatim>\<open>=\<close>, the value is the text between the first \<^verbatim>\<open>=\<close> and the second
  one (or the end of the token), and \<^verbatim>\<open>undefined\<close> when the token has no \<^verbatim>\<open>=\<close>. That
  value is what is parsed as the timestamp or recorded as a signature.
\<close>

theorem parseHeader_step_value_up_to_second_equals:
  "parseHeader_step scheme accum item =
     (let key = takeWhile (\<lambda>c. c \<noteq> CHR ''='') item;
          val = (case dropWhile (\<lambda>c. c \<noteq> CHR ''='') item of
                   [] \<Rightarrow> None
                 | _ # rest \<Rightarrow> Some (takeWhile (\<lambda>c. c \<noteq> CHR ''='') rest));
          accum1 = (if key = ''t'' then accum\<lparr>timestamp := parseInt val\<rparr> else accum)
      in if key = scheme then accum1\<lparr>signatures := signatures accum1 @ [val]\<rparr> else accum1)"
  by (simp add: parseHeader_step_def Let_def at_index_split_0 at_index_split_1)

theorem parseHeader_step_value_up_to_second_equals_witness:
  "parseHeader_step ''v1'' \<lparr>signatures = [], timestamp = IntNum (- 1)\<rparr> ''v1=abc=def''
     = \<lparr>signatures = [Some ''abc''], timestamp = IntNum (- 1)\<rparr>"
  using parseHeader_step_value_up_to_second_equals
          [of "''v1''" "\<lparr>signatures = [], timestamp = IntNum (- 1)\<rparr>" "''v1=abc=def''"]
  by (simp add: Let_def)

subsection \<open>A timestamp that is not a number\<close>

text \<open>
  Counterexample to claim C6 as stated. The header \<^verbatim>\<open>t=abc,v1=deadbeef\<close> is not rejected as malformed: the provider is called
  on \<^verbatim>\<open>NaN.p\<close> and the error is the signature mismatch.
\<close>

theorem verifyHeader_NaN_timestamp_counterexample:
  "verifyHeader example_host 100 (PString ''p'') (HString ''t=abc,v1=deadbeef'') ''s'' (Num 300) None
     = ([(''NaN.p'', ''s'')],
        Inl (StripeSignatureVerificationError msg_no_match (Some ''t=abc,v1=deadbeef'', ''p'')))
   \<and> snd (verifyHeader example_host 100 (PString ''p'') (HString ''t=abc,v1=deadbeef'') ''s''
            (Num 300) None)
     \<noteq> Inl (StripeSignatureVerificationError msg_unable_to_extract
              (Some ''t=abc,v1=deadbeef'', ''p''))"
  by code_simp

text \<open>
  Claim C6, as the code has it. When the \<^verbatim>\<open>t=\<close> value does not parse, the timestamp is
  NaN, which is not the sentinel \<open>-1\<close>. With no candidate signature the error is "No
  signatures found with expected scheme"; otherwise the HMAC is computed over
  \<^verbatim>\<open>NaN.\<close> followed by the payload, and, the candidates being strings, the result is
  the signature mismatch unless a candidate equals that HMAC, in which case
  \<^verbatim>\<open>verifyHeader\<close> returns \<open>true\<close> for every tolerance.
\<close>

theorem verifyHeader_NaN_timestamp:
  assumes parsed: "parseHeader (Some header) EXPECTED_SCHEME = Some dt"
    and nan: "timestamp dt = NaNI"
    and strings: "None \<notin> set (signatures dt)"
    and payload: "dp = (case encodedPayload of PBuffer b \<Rightarrow> toString_utf8 h b | PString s \<Rightarrow> s)"
    and hmac: "expectedSignature =
                 computeHMACSignature (case cryptoProvider of Some c \<Rightarrow> c | None \<Rightarrow> getNodeCryptoProvider h)
                   (''NaN.'' @ dp) secret"
  shows "verifyHeader h now encodedPayload (HString header) secret tolerance cryptoProvider =
           (if signatures dt = []
            then ([], Inl (StripeSignatureVerificationError msg_no_signatures_scheme (Some header, dp)))
            else ([(''NaN.'' @ dp, secret)],
                  if Some expectedSignature \<in> set (signatures dt) then Inr True
                  else Inl (StripeSignatureVerificationError msg_no_match (Some header, dp))))"
proof (cases "signatures dt = []")
  case True
  then show ?thesis
    using nan payload by (simp add: verifyHeader_def parseEventDetails_string [OF parsed])
next
  case False
  with nan payload
  have p: "parseEventDetails h encodedPayload (HString header) EXPECTED_SCHEME
             = Inr \<lparr>details = dt, decodedPayload = dp, decodedHeader = Some header\<rparr>"
    by (simp add: parseEventDetails_string [OF parsed])
  have c: "makeHMACContent dp dt = ''NaN.'' @ dp"
    by (simp add: makeHMACContent_def nan)
  show ?thesis
    using False
    by (simp add: verifyHeader_parsed [OF p] c hmac validateComputedSignature_cases [OF strings] nan)
qed

theorem verifyHeader_NaN_timestamp_witness:
  "verifyHeader example_host 1000000 (PString ''p'') (HString ''t=abc,v1=s/NaN.p'') ''s'' (Num 300) None
     = ([(''NaN.p'', ''s'')], Inr True)"
proof -
  have p: "parseHeader (Some ''t=abc,v1=s/NaN.p'') EXPECTED_SCHEME
             = Some \<lparr>signatures = [Some ''s/NaN.p''], timestamp = NaNI\<rparr>"
    by code_simp
  have n: "timestamp \<lparr>signatures = [Some ''s/NaN.p''], timestamp = NaNI\<rparr> = NaNI"
    by simp
  have d: "''p'' = (case PString ''p'' of PBuffer b \<Rightarrow> toString_utf8 example_host b | PString s \<Rightarrow> s)"
    by simp
  have e: "''s/NaN.p'' = computeHMACSignature
             (case None of Some c \<Rightarrow> c | None \<Rightarrow> getNodeCryptoProvider example_host)
             (''NaN.'' @ ''p'') ''s''"
    by code_simp
  have st: "None \<notin> set (signatures \<lparr>signatures = [Some ''s/NaN.p''], timestamp = NaNI\<rparr>)"
    by simp
  from verifyHeader_NaN_timestamp [OF p n st d e, where now = 1000000 and tolerance = "Num 300"]
  show ?thesis by simp
qed

subsection \<open>The default tolerance of the wrappers\<close>

text \<open>
  Counterexample to claim C10 as stated. Through \<^verbatim>\<open>constructEvent\<close> and
  \<^verbatim>\<open>constructEventAsync\<close> a tolerance of \<open>-1\<close> reaches the
  verifier unchanged and switches the timestamp check off: an event signed 999995 seconds
  ago is accepted, while the same call with tolerance \<open>0\<close> is checked against 300 seconds.
\<close>

theorem constructEvent_negative_tolerance_counterexample:
  "constructEventAsync example_host Inr 1000000 (PString ''p'') (HString ''t=5,v1=s/5.p'') ''s''
      (Number (Num (- 1))) None = ([(''5.p'', ''s'')], Inr (PString ''p''))
   \<and> constructEvent example_host Inr 1000000 (PString ''p'') (HString ''t=5,v1=s/5.p'') ''s''
      (Number (Num (- 1))) None = ([(''5.p'', ''s'')], Inr (PString ''p''))
   \<and> constructEvent example_host Inr 1000000 (PString ''p'') (HString ''t=5,v1=s/5.p'') ''s''
      (Number (Num 0)) None
      = ([(''5.p'', ''s'')],
         Inl (StripeSignatureVerificationError msg_tolerance (Some ''t=5,v1=s/5.p'', ''p'')))"
  by code_simp

text \<open>
  Claim C10, as the code has it. \<^verbatim>\<open>constructEvent\<close> and \<^verbatim>\<open>constructEventAsync\<close> replace
  a falsy tolerance (\<^verbatim>\<open>null\<close>, \<^verbatim>\<open>undefined\<close>, NaN or 0) by 300 before they call the
  verifier, so with such a tolerance a parsed timestamp older than 300 seconds is always
  refused. Every other tolerance, a negative one included, is passed on unchanged.
\<close>

theorem constructEvent_tolerance_default:
  fixes J :: "WebhookPayload \<Rightarrow> error + 'j"
  shows "(tolerance \<in> {Null, Undefined, Number NaN, Number (Num 0)} \<longrightarrow>
            constructEvent h J now payload header secret tolerance cp
              = (let r = verifyHeader h now payload header secret (Num 300) cp
                 in (fst r, case snd r of Inl e \<Rightarrow> Inl e | Inr _ \<Rightarrow> J payload))
          \<and> constructEventAsync h J now payload header secret tolerance cp
              = (let r = verifyHeaderAsync h now payload header secret (Num 300) cp
                 in (fst r, case snd r of Inl e \<Rightarrow> Inl e | Inr _ \<Rightarrow> J payload)))
       \<and> (q \<noteq> 0 \<longrightarrow>
            constructEvent h J now payload header secret (Number (Num q)) cp
              = (let r = verifyHeader h now payload header secret (Num q) cp
                 in (fst r, case snd r of Inl e \<Rightarrow> Inl e | Inr _ \<Rightarrow> J payload))
          \<and> constructEventAsync h J now payload header secret (Number (Num q)) cp
              = (let r = verifyHeaderAsync h now payload header secret (Num q) cp
                 in (fst r, case snd r of Inl e \<Rightarrow> Inl e | Inr _ \<Rightarrow> J payload)))
       \<and> (tolerance \<in> {Null, Undefined, Number NaN, Number (Num 0)}
            \<and> parseEventDetails h payload header EXPECTED_SCHEME = Inr ev
            \<and> timestamp (details ev) = IntNum t \<and> 300 < now - t \<longrightarrow>
            (\<exists>e. snd (constructEvent h J now payload header secret tolerance cp) = Inl e)
          \<and> (\<exists>e. snd (constructEventAsync h J now payload header secret tolerance cp) = Inl e))"
proof -
  have d: "tolerance_or_default tolerance = Num 300"
    if "tolerance \<in> {Null, Undefined, Number NaN, Number (Num 0)}"
    using that by (auto simp: DEFAULT_TOLERANCE_def)
  have n: "tolerance_or_default (Number (Num q)) = Num q" if "q \<noteq> 0"
    using that by simp
  have v: "\<exists>e. validateComputedSignature h now pl hdr dt x (Num 300) = Inl e"
    if "timestamp dt = IntNum t" "300 < now - t" for pl hdr dt x
  proof -
    from that(2) have "(300::rat) < of_int (now - t)"
      by (metis of_int_less_iff of_int_numeral)
    then have "gt (Num (of_int (now - t))) (Num 300)" "gt (Num 300) (Num 0)"
      by simp_all
    with that(1) show ?thesis
      by (rule validateComputedSignature_stale)
  qed
  have r: "(\<exists>e. snd (constructEvent h J now payload header secret tolerance cp) = Inl e)
          \<and> (\<exists>e. snd (constructEventAsync h J now payload header secret tolerance cp) = Inl e)"
    if f: "tolerance \<in> {Null, Undefined, Number NaN, Number (Num 0)}"
      and pe: "parseEventDetails h payload header EXPECTED_SCHEME = Inr ev"
      and ts: "timestamp (details ev) = IntNum t" and old: "300 < now - t"
  proof -
    obtain e1 where "validateComputedSignature h now (decodedPayload ev) (decodedHeader ev) (details ev)
        (computeHMACSignature (case cp of Some c \<Rightarrow> c | None \<Rightarrow> getNodeCryptoProvider h)
           (makeHMACContent (decodedPayload ev) (details ev)) secret) (Num 300) = Inl e1"
      using v [OF ts old] by blast
    moreover obtain e2 where "validateComputedSignature h now (decodedPayload ev) (decodedHeader ev) (details ev)
        (computeHMACSignatureAsync (case cp of Some c \<Rightarrow> c | None \<Rightarrow> getNodeCryptoProvider h)
           (makeHMACContent (decodedPayload ev) (details ev)) secret) (Num 300) = Inl e2"
      using v [OF ts old] by blast
    ultimately show ?thesis
      by (simp add: constructEvent_eq constructEventAsync_eq d [OF f]
            verifyHeader_parsed [OF pe] verifyHeaderAsync_parsed [OF pe])
  qed
  show ?thesis
    using d n r by (simp add: constructEvent_eq constructEventAsync_eq)
qed

theorem constructEvent_tolerance_default_witness:
  "constructEvent example_host Inr 1000000 (PString ''p'') (HString ''t=5,v1=s/5.p'') ''s''
      (Number (Num 0)) None
     = ([(''5.p'', ''s'')],
        Inl (StripeSignatureVerificationError msg_tolerance (Some ''t=5,v1=s/5.p'', ''p'')))"
proof -
  have m: "Number (Num 0) \<in> {Null, Undefined, Number NaN, Number (Num 0)}"
    by simp
  have v: "verifyHeader example_host 1000000 (PString ''p'') (HString ''t=5,v1=s/5.p'') ''s''
             (Num 300) None
     = ([(''5.p'', ''s'')],
        Inl (StripeSignatureVerificationError msg_tolerance (Some ''t=5,v1=s/5.p'', ''p'')))"
    by code_simp
  from constructEvent_tolerance_default
         [where tolerance = "Number (Num 0)" and h = example_host
            and J = "Inr :: WebhookPayload \<Rightarrow> error + WebhookPayload" and now = 1000000
            and payload = "PString ''p''" and header = "HString ''t=5,v1=s/5.p''"
            and secret = "''s''" and cp = None, THEN conjunct1, rule_format, OF m, THEN conjunct1]
  show ?thesis by (simp add: v)
qed

end
